theory Spec2Isabelle
  imports Complex_Main "HOL-Library.Word"
begin

section \<open>Data model\<close>

text \<open>
  The engine of \<^verbatim>\<open>ParticleSystem.cpp\<close> computes on C++ \<^verbatim>\<open>float\<close>. This development reads
  every \<^verbatim>\<open>float\<close> as a real number, so \<open>+\<close>, \<open>-\<close>, \<open>*\<close> and \<open>/\<close> are exact: rounding,
  infinities and NaN are outside the model. The two places of the source where a division
  by zero can occur are written out below (\<open>alpha_cast\<close> and \<open>setExplosion\<close>) rather than
  left to the division of HOL. Concrete runs are taken at dyadic values, on which the
  \<^verbatim>\<open>float\<close> operations involved are exact as well.
\<close>

type_synonym Vector2f = "real \<times> real"

definition Vector2f_add :: "Vector2f \<Rightarrow> Vector2f \<Rightarrow> Vector2f" where
  "Vector2f_add u v = (fst u + fst v, snd u + snd v)"

definition Vector2f_times :: "Vector2f \<Rightarrow> real \<Rightarrow> Vector2f" where
  "Vector2f_times v k = (fst v * k, snd v * k)"

text \<open>An \<^verbatim>\<open>sf::Angle\<close> is kept as its number of degrees.\<close>

type_synonym Angle = real

definition asRadians :: "Angle \<Rightarrow> real" where
  "asRadians d = d * pi / 180"

record Color =
  color_r :: "8 word"
  color_g :: "8 word"
  color_b :: "8 word"
  color_a :: "8 word"

text \<open>
  Modelled from the spec: \<^verbatim>\<open>Sprite.hpp\<close> is not part of the sources. The spec treats the sprite
  as the per-particle visual state (position, rotation, scale, color) that the engine
  creates and mutates; \<open>move\<close> advances the position by an offset and \<open>scale\<close> multiplies
  the current scale by the given factors.
\<close>

record Sprite =
  sprite_position :: Vector2f
  sprite_rotation :: Angle
  sprite_scale :: Vector2f
  sprite_origin :: Vector2f
  sprite_color :: Color

definition Sprite_new :: Sprite where
  "Sprite_new =
     \<lparr>sprite_position = (0, 0), sprite_rotation = 0, sprite_scale = (1, 1),
      sprite_origin = (0, 0),
      sprite_color = \<lparr>color_r = 255, color_g = 255, color_b = 255, color_a = 255\<rparr>\<rparr>"

definition Sprite_setPosition :: "Vector2f \<Rightarrow> Sprite \<Rightarrow> Sprite" where
  "Sprite_setPosition v sp = sp\<lparr>sprite_position := v\<rparr>"

definition Sprite_setRotation :: "Angle \<Rightarrow> Sprite \<Rightarrow> Sprite" where
  "Sprite_setRotation d sp = sp\<lparr>sprite_rotation := d\<rparr>"

definition Sprite_move :: "Vector2f \<Rightarrow> Sprite \<Rightarrow> Sprite" where
  "Sprite_move v sp = sp\<lparr>sprite_position := Vector2f_add (sprite_position sp) v\<rparr>"

definition Sprite_scale :: "Vector2f \<Rightarrow> Sprite \<Rightarrow> Sprite" where
  "Sprite_scale f sp =
     sp\<lparr>sprite_scale := (fst (sprite_scale sp) * fst f, snd (sprite_scale sp) * snd f)\<rparr>"

definition Sprite_setColor :: "Color \<Rightarrow> Sprite \<Rightarrow> Sprite" where
  "Sprite_setColor c sp = sp\<lparr>sprite_color := c\<rparr>"

record ParticleController =
  velocity :: Vector2f
  lifetime :: real

record Particle =
  controller :: ParticleController
  sprite :: Sprite

text \<open>
  The fields of the class, in the order of \<^verbatim>\<open>ParticleSystem.hpp\<close>. The list of owning
  pointers is a list of particles, oldest first (\<^verbatim>\<open>push_back\<close> appends). The last field is
  not a member of the class: it counts the samples taken so far from the process-wide
  random generator, which the spawn functions read through \<^verbatim>\<open>frand\<close> and \<^verbatim>\<open>rand2f\<close>.
\<close>

record ParticleSystem =
  m_particles :: "Particle list"
  m_emitter :: Vector2f
  m_respawn_area :: Vector2f
  m_particle_size :: Vector2f
  m_exponential_growth :: Vector2f
  m_direction :: Angle
  m_dispersion :: Angle
  m_velocity :: real
  m_lifetime_max :: real
  m_rate :: real
  m_timer :: real
  m_is_emitted :: bool
  m_is_attenuated :: bool
  m_instance :: Sprite
  rand_calls :: nat

definition ParticleSystem_new :: ParticleSystem where
  "ParticleSystem_new =
     \<lparr>m_particles = [], m_emitter = (0, 0), m_respawn_area = (0, 0),
      m_particle_size = (32, 32), m_exponential_growth = (1, 1),
      m_direction = 0, m_dispersion = 0,
      m_velocity = 0, m_lifetime_max = 0, m_rate = 0, m_timer = 0,
      m_is_emitted = False, m_is_attenuated = False,
      m_instance = Sprite_new, rand_calls = 0\<rparr>"

section \<open>Setters\<close>

definition setEmitter :: "Vector2f \<Rightarrow> ParticleSystem \<Rightarrow> ParticleSystem" where
  "setEmitter emitter s = s\<lparr>m_emitter := emitter\<rparr>"

definition setDirection :: "Angle \<Rightarrow> ParticleSystem \<Rightarrow> ParticleSystem" where
  "setDirection direction s = s\<lparr>m_direction := direction\<rparr>"

definition setDispersion :: "Angle \<Rightarrow> ParticleSystem \<Rightarrow> ParticleSystem" where
  "setDispersion dispersion s = s\<lparr>m_dispersion := dispersion\<rparr>"

definition setVelocity :: "real \<Rightarrow> ParticleSystem \<Rightarrow> ParticleSystem" where
  "setVelocity v s = s\<lparr>m_velocity := \<bar>v\<bar>\<rparr>"

definition setRespawnRate :: "real \<Rightarrow> ParticleSystem \<Rightarrow> ParticleSystem" where
  "setRespawnRate rate s = s\<lparr>m_rate := \<bar>rate\<bar>\<rparr>"

definition setRespawnArea :: "Vector2f \<Rightarrow> ParticleSystem \<Rightarrow> ParticleSystem" where
  "setRespawnArea area s = s\<lparr>m_respawn_area := area\<rparr>"

definition setLifeTime :: "real \<Rightarrow> ParticleSystem \<Rightarrow> ParticleSystem" where
  "setLifeTime l s = s\<lparr>m_lifetime_max := \<bar>l\<bar>\<rparr>"

definition setExponentialGrowth :: "Vector2f \<Rightarrow> ParticleSystem \<Rightarrow> ParticleSystem" where
  "setExponentialGrowth factors s = s\<lparr>m_exponential_growth := factors\<rparr>"

definition setEmitted :: "bool \<Rightarrow> ParticleSystem \<Rightarrow> ParticleSystem" where
  "setEmitted emitted s = s\<lparr>m_is_emitted := emitted\<rparr>"

definition setAttenuated :: "bool \<Rightarrow> ParticleSystem \<Rightarrow> ParticleSystem" where
  "setAttenuated attenuation s = s\<lparr>m_is_attenuated := attenuation\<rparr>"

section \<open>Random samples\<close>

text \<open>
  Modelled from the spec: \<^verbatim>\<open>Utils.hpp\<close> (\<^verbatim>\<open>frand\<close>, \<^verbatim>\<open>rand2f\<close>) is not part of the sources.
  The spec reads \<^verbatim>\<open>frand(lo, hi)\<close> as \<open>uniform(lo, hi)\<close> and \<^verbatim>\<open>rand2f(area)\<close> as the pair
  \<open>(uniform(0, area.x), uniform(0, area.y))\<close>. A sample of the generator is a number \<open>u\<close>,
  meant to lie in \<open>[0, 1]\<close>, and \<open>uniform(lo, hi)\<close> is the point of \<open>[lo, hi]\<close> at that
  fraction. The generator is a sequence \<open>rnd\<close> of samples; \<open>rand_calls\<close> is the index of
  the next one.
\<close>

definition frand :: "real \<Rightarrow> real \<Rightarrow> real \<Rightarrow> real" where
  "frand lo hi u = lo + u * (hi - lo)"

definition rand2f :: "Vector2f \<Rightarrow> real \<Rightarrow> real \<Rightarrow> Vector2f" where
  "rand2f area u1 u2 = (frand 0 (fst area) u1, frand 0 (snd area) u2)"

section \<open>Spawning\<close>

definition createParticle :: "(nat \<Rightarrow> real) \<Rightarrow> ParticleSystem \<Rightarrow> ParticleSystem" where
  "createParticle rnd s =
     (let k = rand_calls s;
          half_disp = m_dispersion s * (1 / 2);
          random = frand (- half_disp) half_disp (rnd k);
          angle = asRadians (m_direction s + random);
          vel = (cos angle * m_velocity s, sin angle * m_velocity s);
          life = frand 0 (m_lifetime_max s) (rnd (k + 1)) + 1;
          respawn_point = rand2f (m_respawn_area s) (rnd (k + 2)) (rnd (k + 3));
          offset = Vector2f_add (m_emitter s) respawn_point;
          sp = Sprite_setRotation (frand 0 360 (rnd (k + 4)))
                 (Sprite_setPosition offset (m_instance s))
      in s\<lparr>m_particles := m_particles s @ [\<lparr>controller = \<lparr>velocity = vel, lifetime = life\<rparr>, sprite = sp\<rparr>],
           rand_calls := k + 5\<rparr>)"

text \<open>
  One iteration of the loop of \<^verbatim>\<open>setExplosion\<close>, for the index \<open>i\<close>; \<open>burst_particle\<close> is
  the particle it builds from the sample \<open>u\<close>.
\<close>

definition burst_particle :: "ParticleSystem \<Rightarrow> real \<Rightarrow> real \<Rightarrow> nat \<Rightarrow> real \<Rightarrow> Particle" where
  "burst_particle s offset radius i u =
     (let dir = real i * offset;
          sine = sin dir;
          cosine = cos dir;
          x = cosine * radius + fst (m_emitter s);
          y = sine * radius + snd (m_emitter s)
      in \<lparr>controller = \<lparr>velocity = (cosine * m_velocity s, sine * m_velocity s),
                         lifetime = frand 0 (m_lifetime_max s) u + 1\<rparr>,
          sprite = Sprite_setPosition (x, y) (m_instance s)\<rparr>)"

definition explosion_step :: "(nat \<Rightarrow> real) \<Rightarrow> real \<Rightarrow> real \<Rightarrow> nat \<Rightarrow> ParticleSystem \<Rightarrow> ParticleSystem" where
  "explosion_step rnd offset radius i s =
     s\<lparr>m_particles := m_particles s @ [burst_particle s offset radius i (rnd (rand_calls s))],
       rand_calls := rand_calls s + 1\<rparr>"

text \<open>
  \<^verbatim>\<open>M_PI * 2 / splash_amount\<close> is a floating-point division: for \<open>splash_amount = 0\<close> it
  yields an infinity and does not trap. The loop then runs no iteration and the offset is
  never read, so the value the model gives it there plays no part.
\<close>

definition setExplosion :: "(nat \<Rightarrow> real) \<Rightarrow> nat \<Rightarrow> real \<Rightarrow> ParticleSystem \<Rightarrow> ParticleSystem" where
  "setExplosion rnd splash_amount radius s =
     (if m_particles s = [] then
        (let s1 = setEmitted False s;
             offset = pi * 2 / real splash_amount
         in fold (explosion_step rnd offset radius) [0..<splash_amount] s1)
      else s)"

section \<open>The update step\<close>

text \<open>
  Two steps of \<open>update\<close> have no defined result in C++, and the model reports each as an
  error instead of a value.
  \<^item> The conversion \<^verbatim>\<open>static_cast<sf::Uint8>(x)\<close> of a \<^verbatim>\<open>float\<close> truncates towards zero;
    when the truncated value is not in \<open>0..255\<close> the conversion is undefined.
  \<^item> \<^verbatim>\<open>m_particles.erase(p)\<close> (line 155) destroys the owning pointer and with it the
    particle; line 157 then decrements the lifetime through the raw pointer taken at line
    135, which dangles by then: a write to a released object.
\<close>

datatype error = UndefinedCast | UseAfterFree

definition to_Uint8 :: "real \<Rightarrow> error + 8 word" where
  "to_Uint8 x = (if - 1 < x \<and> x < 256 then Inr (word_of_int (if x < 0 then 0 else \<lfloor>x\<rfloor>))
                 else Inl UndefinedCast)"

text \<open>
  \<open>alpha_cast l lmax\<close> is \<^verbatim>\<open>static_cast<sf::Uint8>(ratio * 255)\<close> for
  \<^verbatim>\<open>ratio = l / lmax\<close>, computed for a particle with \<open>0 < l\<close>. With \<open>lmax = 0\<close> the
  \<^verbatim>\<open>float\<close> quotient is an infinity, outside the range of the conversion.
\<close>

definition alpha_cast :: "real \<Rightarrow> real \<Rightarrow> error + 8 word" where
  "alpha_cast l lmax = (if lmax = 0 then Inl UndefinedCast else to_Uint8 (l / lmax * 255))"

text \<open>
  The body of the loop over the particles (lines 135 to 157), for one particle. On the
  branch \<^verbatim>\<open>lifetime > 0.0f\<close> the particle is moved, faded and scaled, stays in the list,
  and its lifetime is decremented at line 157. On the other branch the particle is erased
  and line 157 writes to the erased particle.
\<close>

definition visit :: "ParticleSystem \<Rightarrow> real \<Rightarrow> Particle \<Rightarrow> error + Particle" where
  "visit s dt p =
     (if 0 < lifetime (controller p) then
        (let sp1 = Sprite_move (Vector2f_times (velocity (controller p)) dt) (sprite p)
         in case (if m_is_attenuated s then
                    (case alpha_cast (lifetime (controller p)) (m_lifetime_max s) of
                       Inl e \<Rightarrow> Inl e
                     | Inr al \<Rightarrow> Inr (Sprite_setColor ((sprite_color sp1)\<lparr>color_a := al\<rparr>) sp1))
                  else Inr sp1) of
              Inl e \<Rightarrow> Inl e
            | Inr sp2 \<Rightarrow>
                Inr \<lparr>controller = (controller p)\<lparr>lifetime := lifetime (controller p) - dt\<rparr>,
                     sprite = Sprite_scale (m_exponential_growth s) sp2\<rparr>)
      else Inl UseAfterFree)"

text \<open>
  The loop itself, in list order. It stops at the first step without a defined result; a
  pass that returns has kept every particle.
\<close>

fun pass :: "ParticleSystem \<Rightarrow> real \<Rightarrow> Particle list \<Rightarrow> error + Particle list" where
  "pass s dt [] = Inr []"
| "pass s dt (p # ps) =
     (case visit s dt p of
        Inl e \<Rightarrow> Inl e
      | Inr p' \<Rightarrow>
          (case pass s dt ps of
             Inl e \<Rightarrow> Inl e
           | Inr ps' \<Rightarrow> Inr (p' # ps')))"

text \<open>
  The loop \<^verbatim>\<open>while (m_timer > 1.0f)\<close>. Over the reals every iteration lowers the
  accumulator by 1, so the loop ends; an accumulator so large that the \<^verbatim>\<open>float\<close>
  subtraction leaves it unchanged is outside the model.
\<close>

function drain :: "(nat \<Rightarrow> real) \<Rightarrow> ParticleSystem \<Rightarrow> ParticleSystem" where
  "drain rnd s =
     (if 1 < m_timer s then drain rnd (createParticle rnd (s\<lparr>m_timer := m_timer s - 1\<rparr>)) else s)"
  by pat_completeness auto
termination
proof (relation "measure (\<lambda>(rnd, s). nat \<lceil>m_timer s\<rceil>)")
  show "wf (measure (\<lambda>(rnd, s). nat \<lceil>m_timer s\<rceil>))" by simp
next
  fix rnd :: "nat \<Rightarrow> real" and s :: ParticleSystem
  assume "1 < m_timer s"
  then have "\<lceil>m_timer s - 1\<rceil> = \<lceil>m_timer s\<rceil> - 1" and "1 < \<lceil>m_timer s\<rceil>"
    by linarith+
  then show "((rnd, createParticle rnd (s\<lparr>m_timer := m_timer s - 1\<rparr>)), (rnd, s))
      \<in> measure (\<lambda>(rnd, s). nat \<lceil>m_timer s\<rceil>)"
    by (simp add: createParticle_def Let_def)
qed

declare drain.simps [simp del]

text \<open>Lines 124 to 131: the accumulator and the spawns it triggers.\<close>

definition schedule :: "(nat \<Rightarrow> real) \<Rightarrow> real \<Rightarrow> ParticleSystem \<Rightarrow> ParticleSystem" where
  "schedule rnd dt s =
     drain rnd (if m_is_emitted s then s\<lparr>m_timer := m_timer s + m_rate s * dt\<rparr> else s)"

definition update :: "(nat \<Rightarrow> real) \<Rightarrow> real \<Rightarrow> ParticleSystem \<Rightarrow> error + ParticleSystem" where
  "update rnd dt s =
     (let s1 = schedule rnd dt s
      in case pass s1 dt (m_particles s1) of
           Inl e \<Rightarrow> Inl e
         | Inr ps \<Rightarrow> Inr (s1\<lparr>m_particles := ps\<rparr>))"

section \<open>Runs of the engine\<close>

text \<open>
  A sequence of \<open>update\<close> calls with no other call in between. Next to the final state it
  returns the number of particles spawned on the way: each call contributes the number of
  particles its scheduling phase appended.
\<close>

definition spawned :: "(nat \<Rightarrow> real) \<Rightarrow> real \<Rightarrow> ParticleSystem \<Rightarrow> nat" where
  "spawned rnd dt s = length (m_particles (schedule rnd dt s)) - length (m_particles s)"

fun update_seq :: "(nat \<Rightarrow> real) \<Rightarrow> real list \<Rightarrow> ParticleSystem \<Rightarrow> error + (nat \<times> ParticleSystem)" where
  "update_seq rnd [] s = Inr (0, s)"
| "update_seq rnd (dt # dts) s =
     (case update rnd dt s of
        Inl e \<Rightarrow> Inl e
      | Inr s1 \<Rightarrow>
          (case update_seq rnd dts s1 of
             Inl e \<Rightarrow> Inl e
           | Inr (n, s2) \<Rightarrow> Inr (spawned rnd dt s + n, s2)))"


text \<open>
  The states an engine can be in: the constructed engine, and what the public operations
  make of a reachable state. \<^verbatim>\<open>setTexture\<close>, \<^verbatim>\<open>setColor\<close> and \<^verbatim>\<open>setParticleSize\<close> write
  the sprite template and the particle size only (lines 21 to 39); the rule \<open>template\<close>
  covers them by allowing any new value of these two fields.
\<close>

inductive reachable :: "(nat \<Rightarrow> real) \<Rightarrow> ParticleSystem \<Rightarrow> bool" for rnd :: "nat \<Rightarrow> real" where
  constructed: "reachable rnd ParticleSystem_new"
| template: "reachable rnd s \<Longrightarrow> reachable rnd (s\<lparr>m_particle_size := z, m_instance := i\<rparr>)"
| emitter: "reachable rnd s \<Longrightarrow> reachable rnd (setEmitter e s)"
| direction: "reachable rnd s \<Longrightarrow> reachable rnd (setDirection d s)"
| dispersion: "reachable rnd s \<Longrightarrow> reachable rnd (setDispersion d s)"
| velocity: "reachable rnd s \<Longrightarrow> reachable rnd (setVelocity v s)"
| rate: "reachable rnd s \<Longrightarrow> reachable rnd (setRespawnRate v s)"
| area: "reachable rnd s \<Longrightarrow> reachable rnd (setRespawnArea e s)"
| life: "reachable rnd s \<Longrightarrow> reachable rnd (setLifeTime v s)"
| growth: "reachable rnd s \<Longrightarrow> reachable rnd (setExponentialGrowth e s)"
| emitted: "reachable rnd s \<Longrightarrow> reachable rnd (setEmitted b s)"
| attenuated: "reachable rnd s \<Longrightarrow> reachable rnd (setAttenuated b s)"
| explosion: "reachable rnd s \<Longrightarrow> reachable rnd (setExplosion rnd n r s)"
| updated: "reachable rnd s \<Longrightarrow> update rnd dt s = Inr s' \<Longrightarrow> reachable rnd s'"

text \<open>The generator that returns the sample \<open>0\<close> at every call, and one that returns \<open>1\<close>.\<close>

definition rnd_zero :: "nat \<Rightarrow> real" where
  "rnd_zero k = 0"

definition rnd_one :: "nat \<Rightarrow> real" where
  "rnd_one k = 1"

text \<open>A particle at rest with a given lifetime, used in concrete runs.\<close>

definition particle_with :: "real \<Rightarrow> Particle" where
  "particle_with l = \<lparr>controller = \<lparr>velocity = (0, 0), lifetime = l\<rparr>, sprite = Sprite_new\<rparr>"

section \<open>Facts about the scheduling phase and the pass\<close>


lemma createParticle_fields [simp]:
  "m_timer (createParticle rnd s) = m_timer s"
  "m_rate (createParticle rnd s) = m_rate s"
  "m_is_emitted (createParticle rnd s) = m_is_emitted s"
  "m_is_attenuated (createParticle rnd s) = m_is_attenuated s"
  "m_lifetime_max (createParticle rnd s) = m_lifetime_max s"
  "length (m_particles (createParticle rnd s)) = Suc (length (m_particles s))"
  by (simp_all add: createParticle_def Let_def)

lemma drain_idle: "m_timer s \<le> 1 \<Longrightarrow> drain rnd s = s"
  by (simp add: drain.simps)

lemma drain_spawn:
  "1 < m_timer s \<Longrightarrow> drain rnd s = drain rnd (createParticle rnd (s\<lparr>m_timer := m_timer s - 1\<rparr>))"
  by (subst drain.simps) simp

lemma drain_fields:
  "m_rate (drain rnd s) = m_rate s \<and> m_is_emitted (drain rnd s) = m_is_emitted s
   \<and> m_is_attenuated (drain rnd s) = m_is_attenuated s
   \<and> m_lifetime_max (drain rnd s) = m_lifetime_max s"
proof (induction rnd s rule: drain.induct)
  case (1 rnd s)
  show ?case
  proof (cases "1 < m_timer s")
    case True
    with 1 show ?thesis by (simp add: drain_spawn)
  next
    case False
    then show ?thesis by (simp add: drain_idle)
  qed
qed


lemma drain_timer_le: "m_timer (drain rnd s) \<le> 1"
proof (induction rnd s rule: drain.induct)
  case (1 rnd s)
  show ?case
  proof (cases "1 < m_timer s")
    case True
    with 1 show ?thesis by (simp add: drain_spawn)
  next
    case False
    then show ?thesis by (simp add: drain_idle)
  qed
qed


lemma visit_total:
  "\<not> m_is_attenuated s \<Longrightarrow> 0 < lifetime (controller p) \<Longrightarrow> \<exists>p'. visit s dt p = Inr p'"
  by (simp add: visit_def Let_def)

lemma visit_lifetime:
  "visit s dt p = Inr p' \<Longrightarrow>
     0 < lifetime (controller p) \<and> lifetime (controller p') = lifetime (controller p) - dt"
  by (auto simp: visit_def Let_def split: if_splits sum.splits)

lemma visit_expired: "lifetime (controller p) \<le> 0 \<Longrightarrow> visit s dt p = Inl UseAfterFree"
  by (simp add: visit_def)

lemma pass_total:
  "\<not> m_is_attenuated s \<Longrightarrow> \<forall>p\<in>set ps. 0 < lifetime (controller p) \<Longrightarrow> \<exists>ps'. pass s dt ps = Inr ps'"
proof (induction ps)
  case Nil
  show ?case by simp
next
  case (Cons p ps)
  from Cons.prems obtain p' where "visit s dt p = Inr p'" using visit_total [of s p dt] by auto
  moreover from Cons obtain ps' where "pass s dt ps = Inr ps'" by auto
  ultimately show ?case by simp
qed

lemma pass_lifetimes:
  "pass s dt ps = Inr ps' \<Longrightarrow>
     map (\<lambda>p. lifetime (controller p)) ps' = map (\<lambda>p. lifetime (controller p) - dt) ps
     \<and> (\<forall>p\<in>set ps. 0 < lifetime (controller p))"
proof (induction ps arbitrary: ps')
  case Nil
  then show ?case by simp
next
  case (Cons p ps)
  from Cons.prems obtain p' qs where v: "visit s dt p = Inr p'"
    and r: "pass s dt ps = Inr qs" and e: "ps' = p' # qs"
    by (auto split: sum.splits)
  from visit_lifetime [OF v] Cons.IH [OF r] e show ?case by simp
qed

lemma createParticle_appends:
  "\<exists>p. m_particles (createParticle rnd s) = m_particles s @ [p]
        \<and> lifetime (controller p) = frand 0 (m_lifetime_max s) (rnd (rand_calls s + 1)) + 1"
  by (simp add: createParticle_def Let_def)

lemma frand_range:
  assumes "0 \<le> u" and "u \<le> 1" and "0 \<le> hi"
  shows "0 \<le> frand 0 hi u" and "frand 0 hi u \<le> hi"
proof -
  show "0 \<le> frand 0 hi u" using assms by (simp add: frand_def)
  have "u * hi \<le> 1 * hi" using assms by (intro mult_right_mono) simp_all
  then show "frand 0 hi u \<le> hi" by (simp add: frand_def)
qed

lemma drain_fresh:
  "\<exists>fresh. m_particles (drain rnd s) = m_particles s @ fresh
     \<and> (0 \<le> m_lifetime_max s \<and> (\<forall>k. 0 \<le> rnd k \<and> rnd k \<le> 1)
          \<longrightarrow> (\<forall>p\<in>set fresh. 1 \<le> lifetime (controller p)))"
proof (induction rnd s rule: drain.induct)
  case (1 rnd s)
  show ?case
  proof (cases "1 < m_timer s")
    case True
    let ?s1 = "s\<lparr>m_timer := m_timer s - 1\<rparr>"
    from createParticle_appends [of rnd ?s1] obtain p
      where p: "m_particles (createParticle rnd ?s1) = m_particles s @ [p]"
        and l: "lifetime (controller p) = frand 0 (m_lifetime_max s) (rnd (rand_calls s + 1)) + 1"
      by auto
    from 1 [OF True] obtain fresh
      where f: "m_particles (drain rnd (createParticle rnd ?s1))
                  = m_particles (createParticle rnd ?s1) @ fresh"
        and g: "0 \<le> m_lifetime_max s \<and> (\<forall>k. 0 \<le> rnd k \<and> rnd k \<le> 1)
                  \<longrightarrow> (\<forall>p\<in>set fresh. 1 \<le> lifetime (controller p))"
      by auto
    have "0 \<le> m_lifetime_max s \<and> (\<forall>k. 0 \<le> rnd k \<and> rnd k \<le> 1)
            \<longrightarrow> 1 \<le> lifetime (controller p)"
      using l frand_range(1) [of "rnd (rand_calls s + 1)" "m_lifetime_max s"] by simp
    with f g p True show ?thesis
      by (intro exI [of _ "p # fresh"]) (simp add: drain_spawn)
  next
    case False
    then show ?thesis by (simp add: drain_idle)
  qed
qed

lemma schedule_fresh:
  "\<exists>fresh. m_particles (schedule rnd dt s) = m_particles s @ fresh
     \<and> (0 \<le> m_lifetime_max s \<and> (\<forall>k. 0 \<le> rnd k \<and> rnd k \<le> 1)
          \<longrightarrow> (\<forall>p\<in>set fresh. 1 \<le> lifetime (controller p)))"
proof (cases "m_is_emitted s")
  case True
  with drain_fresh [of rnd "s\<lparr>m_timer := m_timer s + m_rate s * dt\<rparr>"] show ?thesis
    by (simp add: schedule_def)
next
  case False
  with drain_fresh [of rnd s] show ?thesis by (simp add: schedule_def)
qed

lemma schedule_fields:
  "m_rate (schedule rnd dt s) = m_rate s \<and> m_is_emitted (schedule rnd dt s) = m_is_emitted s
   \<and> m_is_attenuated (schedule rnd dt s) = m_is_attenuated s
   \<and> m_lifetime_max (schedule rnd dt s) = m_lifetime_max s"
  by (simp add: schedule_def drain_fields)

lemma schedule_timer_le: "m_timer (schedule rnd dt s) \<le> 1"
  by (simp add: schedule_def drain_timer_le)

lemma update_fields:
  "update rnd dt s = Inr s' \<Longrightarrow>
     m_rate s' = m_rate s \<and> m_is_emitted s' = m_is_emitted s
     \<and> m_is_attenuated s' = m_is_attenuated s \<and> m_lifetime_max s' = m_lifetime_max s
     \<and> m_timer s' = m_timer (schedule rnd dt s)"
  by (auto simp: update_def Let_def schedule_fields split: sum.splits)

lemma update_lifetimes:
  assumes "update rnd dt s = Inr s'"
  shows "map (\<lambda>p. lifetime (controller p)) (m_particles s')
           = map (\<lambda>p. lifetime (controller p) - dt) (m_particles (schedule rnd dt s))"
    and "\<forall>p\<in>set (m_particles (schedule rnd dt s)). 0 < lifetime (controller p)"
proof -
  from assms obtain ps
    where "pass (schedule rnd dt s) dt (m_particles (schedule rnd dt s)) = Inr ps"
      and "m_particles s' = ps"
    by (auto simp: update_def Let_def split: sum.splits)
  with pass_lifetimes [of "schedule rnd dt s" dt "m_particles (schedule rnd dt s)" ps]
  show "map (\<lambda>p. lifetime (controller p)) (m_particles s')
           = map (\<lambda>p. lifetime (controller p) - dt) (m_particles (schedule rnd dt s))"
    and "\<forall>p\<in>set (m_particles (schedule rnd dt s)). 0 < lifetime (controller p)"
    by simp_all
qed

lemma update_total:
  assumes "\<not> m_is_attenuated s"
    and "\<forall>p\<in>set (m_particles (schedule rnd dt s)). 0 < lifetime (controller p)"
  shows "\<exists>s'. update rnd dt s = Inr s'"
proof -
  from assms(1) have "\<not> m_is_attenuated (schedule rnd dt s)" by (simp add: schedule_fields)
  from pass_total [OF this assms(2)] obtain ps'
    where "pass (schedule rnd dt s) dt (m_particles (schedule rnd dt s)) = Inr ps'"
    by blast
  then show ?thesis by (simp add: update_def Let_def)
qed




text \<open>
  A run returns when it is shorter than every lifetime: without attenuation, with samples
  in \<open>[0, 1]\<close> and \<open>lifetimeMax \<ge> 0\<close>, if the calls before the last one take less than one
  time unit together and less than the lifetime of every particle present at the start.
\<close>

lemma update_seq_total:
  "\<not> m_is_attenuated s \<Longrightarrow> 0 \<le> m_lifetime_max s \<Longrightarrow> \<forall>k. 0 \<le> rnd k \<and> rnd k \<le> 1
     \<Longrightarrow> \<forall>dt\<in>set dts. 0 \<le> dt \<Longrightarrow> sum_list (butlast dts) < 1
     \<Longrightarrow> \<forall>p\<in>set (m_particles s). sum_list (butlast dts) < lifetime (controller p)
     \<Longrightarrow> \<exists>r. update_seq rnd dts s = Inr r"
proof (induction dts arbitrary: s)
  case Nil
  show ?case by simp
next
  case (Cons dt dts)
  note prems = Cons.prems and IH = Cons.IH
  let ?b = "sum_list (butlast (dt # dts))"
  have nn: "0 \<le> sum_list (butlast dts)"
    using prems(4) by (intro sum_list_nonneg) (auto dest: in_set_butlastD)
  have b0: "0 \<le> ?b" using nn prems(4) by simp
  from schedule_fresh [of rnd dt s] prems(2,3) obtain fresh
    where f: "m_particles (schedule rnd dt s) = m_particles s @ fresh"
      and g: "\<forall>p\<in>set fresh. 1 \<le> lifetime (controller p)"
    by auto
  have live: "\<forall>p\<in>set (m_particles (schedule rnd dt s)). ?b < lifetime (controller p)"
    using f g prems(5,6) by fastforce
  with b0 have "\<forall>p\<in>set (m_particles (schedule rnd dt s)). 0 < lifetime (controller p)"
    by fastforce
  from update_total [OF prems(1) this] obtain s1 where u: "update rnd dt s = Inr s1"
    by blast
  show ?case
  proof (cases dts)
    case Nil
    with u show ?thesis by simp
  next
    case (Cons d ds)
    then have b: "?b = dt + sum_list (butlast dts)" by simp
    have "\<forall>l\<in>set (map (\<lambda>p. lifetime (controller p)) (m_particles s1)). sum_list (butlast dts) < l"
      using update_lifetimes(1) [OF u] live b by auto
    then have l1: "\<forall>p\<in>set (m_particles s1). sum_list (butlast dts) < lifetime (controller p)"
      by simp
    have "sum_list (butlast dts) < 1" using b prems(4,5) by simp
    moreover have "\<not> m_is_attenuated s1" "0 \<le> m_lifetime_max s1"
      using update_fields [OF u] prems(1,2) by simp_all
    moreover have "\<forall>dt\<in>set dts. 0 \<le> dt" using prems(4) by simp
    ultimately obtain r where "update_seq rnd dts s1 = Inr r"
      using IH [of s1] prems(3) l1 by blast
    with u show ?thesis by (cases r) simp
  qed
qed

lemma burst_particle_frame:
  "burst_particle (s\<lparr>m_particles := ps, rand_calls := k\<rparr>) off r i u = burst_particle s off r i u"
  "burst_particle (setEmitted b s) off r i u = burst_particle s off r i u"
  by (simp_all add: burst_particle_def setEmitted_def)

lemma explosion_fold:
  "fold (explosion_step rnd off r) [0..<n] s
     = s\<lparr>m_particles := m_particles s @ map (\<lambda>i. burst_particle s off r i (rnd (rand_calls s + i))) [0..<n],
         rand_calls := rand_calls s + n\<rparr>"
proof (induction n)
  case 0
  show ?case by simp
next
  case (Suc n)
  have "fold (explosion_step rnd off r) [0..<Suc n] s
          = explosion_step rnd off r n (fold (explosion_step rnd off r) [0..<n] s)"
    by simp
  also have "\<dots> = explosion_step rnd off r n
      (s\<lparr>m_particles := m_particles s @ map (\<lambda>i. burst_particle s off r i (rnd (rand_calls s + i))) [0..<n],
         rand_calls := rand_calls s + n\<rparr>)"
    by (simp only: Suc)
  also have "\<dots> = s\<lparr>m_particles := m_particles s
        @ map (\<lambda>i. burst_particle s off r i (rnd (rand_calls s + i))) [0..<Suc n],
      rand_calls := rand_calls s + Suc n\<rparr>"
    by (simp add: explosion_step_def burst_particle_frame)
  finally show ?case .
qed

lemma setExplosion_empty:
  "m_particles s = [] \<Longrightarrow>
     setExplosion rnd N r s
       = s\<lparr>m_particles := map (\<lambda>i. burst_particle s (pi * 2 / real N) r i (rnd (rand_calls s + i))) [0..<N],
           m_is_emitted := False, rand_calls := rand_calls s + N\<rparr>"
  by (simp add: setExplosion_def Let_def explosion_fold burst_particle_frame)
    (simp add: setEmitted_def)

lemma setExplosion_timer: "m_timer (setExplosion rnd N r s) = m_timer s"
proof (cases "m_particles s = []")
  case True
  then show ?thesis by (simp add: setExplosion_empty)
next
  case False
  then show ?thesis by (simp add: setExplosion_def)
qed

lemma schedule_idle: "m_timer s \<le> 1 \<Longrightarrow> \<not> m_is_emitted s \<Longrightarrow> schedule rnd dt s = s"
  by (simp add: schedule_def drain_idle)

lemma reachable_timer: "reachable rnd s \<Longrightarrow> m_timer s \<le> 1"
proof (induction rule: reachable.induct)
  case constructed
  show ?case by (simp add: ParticleSystem_new_def)
next
  case (explosion s n r)
  then show ?case by (simp add: setExplosion_timer)
next
  case (updated s dt s')
  from update_fields [OF updated.hyps(2)] schedule_timer_le [of rnd dt s]
  show ?case by simp
qed (simp_all add: setEmitter_def setDirection_def setDispersion_def setVelocity_def
    setRespawnRate_def setRespawnArea_def setLifeTime_def setExponentialGrowth_def
    setEmitted_def setAttenuated_def)


text \<open>What the branch for a particle with lifetime greater than 0 does to the particle.\<close>

lemma alpha_cast_in_range:
  "0 < lmax \<Longrightarrow> 0 \<le> l \<Longrightarrow> l / lmax * 255 < 256
     \<Longrightarrow> alpha_cast l lmax = Inr (word_of_int \<lfloor>l / lmax * 255\<rfloor>)"
proof -
  assume m: "0 < lmax" and l: "0 \<le> l" and hi: "l / lmax * 255 < 256"
  from m l have lo: "0 \<le> l / lmax * 255" by simp
  from lo hi m show ?thesis by (simp add: alpha_cast_def to_Uint8_def)
qed

lemma visit_live:
  assumes "visit s dt p = Inr p'"
  shows "sprite_position (sprite p')
           = (fst (sprite_position (sprite p)) + fst (velocity (controller p)) * dt,
              snd (sprite_position (sprite p)) + snd (velocity (controller p)) * dt)"
    and "sprite_scale (sprite p')
           = (fst (sprite_scale (sprite p)) * fst (m_exponential_growth s),
              snd (sprite_scale (sprite p)) * snd (m_exponential_growth s))"
    and "velocity (controller p') = velocity (controller p)"
    and "m_is_attenuated s \<Longrightarrow>
           alpha_cast (lifetime (controller p)) (m_lifetime_max s)
             = Inr (color_a (sprite_color (sprite p')))"
    and "\<not> m_is_attenuated s \<Longrightarrow> sprite_color (sprite p') = sprite_color (sprite p)"
  using assms
  by (auto simp: visit_def Let_def Sprite_move_def Sprite_scale_def Sprite_setColor_def
      Vector2f_add_def Vector2f_times_def split: if_splits sum.splits)

section \<open>Concrete runs\<close>


lemma crossing_step:
  "update rnd_zero 2 (ParticleSystem_new\<lparr>m_particles := [particle_with 1]\<rparr>)
     = Inr (ParticleSystem_new\<lparr>m_particles := [particle_with (- 1)]\<rparr>)"
  by (simp add: update_def schedule_def drain_idle ParticleSystem_new_def particle_with_def
      visit_def Let_def Sprite_move_def Sprite_scale_def Sprite_new_def Vector2f_times_def
      Vector2f_add_def)

lemma quarter_step:
  "update rnd_zero (1/4) (setEmitted True (setRespawnRate 2 ParticleSystem_new))
     = Inr ((setEmitted True (setRespawnRate 2 ParticleSystem_new))\<lparr>m_timer := 1/2\<rparr>)"
  by (simp add: update_def schedule_def drain_idle setEmitted_def setRespawnRate_def
      ParticleSystem_new_def)

lemma half_timer_reachable:
  "reachable rnd_zero ((setEmitted True (setRespawnRate 2 ParticleSystem_new))\<lparr>m_timer := 1/2\<rparr>)"
  using quarter_step
  by (rule reachable.updated [OF reachable.emitted [OF reachable.rate [OF reachable.constructed]]])


lemma long_step:
  "update rnd_zero 3 (setEmitted True (setRespawnRate 1 ParticleSystem_new))
     = Inr ((setEmitted True (setRespawnRate 1 ParticleSystem_new))
              \<lparr>m_particles := [particle_with (- 2), particle_with (- 2)], m_timer := 1, rand_calls := 10\<rparr>)"
  by (simp add: update_def schedule_def drain_idle drain_spawn
      setEmitted_def setRespawnRate_def ParticleSystem_new_def createParticle_def Let_def
      visit_def frand_def rand2f_def rnd_zero_def particle_with_def asRadians_def
      Sprite_move_def Sprite_scale_def Sprite_new_def Sprite_setPosition_def
      Sprite_setRotation_def Vector2f_times_def Vector2f_add_def)

section \<open>Continuous emission\<close>




section \<open>Ageing and retirement\<close>

text \<open>
  C2 (failing input). With rate 1, emission on and no particle, \<open>update(2)\<close> spawns one
  particle of lifetime 1 and ages it to \<open>- 1\<close>. The next call \<open>update(1)\<close> measures this
  particle as expired, erases it, and then applies the decrement of line 157 to the erased
  particle: the call has no defined result. The decrement the claim describes for an
  expired particle is a write to a released object.
\<close>

theorem expired_particle_use_after_free:
  "update_seq rnd_zero [2, 1] (setEmitted True (setRespawnRate 1 ParticleSystem_new))
     = Inl UseAfterFree"
  by (simp add: update_def schedule_def drain_idle drain_spawn
      setEmitted_def setRespawnRate_def ParticleSystem_new_def createParticle_def Let_def
      visit_def frand_def rnd_zero_def)

text \<open>
  C3 (as the code has it). A call of \<open>update\<close> that returns has found every particle with a
  lifetime greater than 0: it keeps every particle of the collection, in place, and lowers
  its lifetime by exactly \<open>dt\<close>, a strict decrease when \<open>dt > 0\<close>. This includes the call in
  which a lifetime reaches 0 or less, so a particle is not removed in that call; the
  branch that erases is entered only by a later call, one that starts with the lifetime at
  0 or less. Without attenuation the call returns whenever every particle it visits has a
  lifetime greater than 0.
\<close>

theorem crossing_particle_stays:
  "(update rnd dt s = Inr s' \<longrightarrow>
      length (m_particles s') = length (m_particles (schedule rnd dt s))
      \<and> length (m_particles s) \<le> length (m_particles s')
      \<and> (\<forall>i<length (m_particles s).
            0 < lifetime (controller (m_particles s ! i))
            \<and> lifetime (controller (m_particles s' ! i))
                = lifetime (controller (m_particles s ! i)) - dt
            \<and> (0 < dt \<longrightarrow> lifetime (controller (m_particles s' ! i))
                           < lifetime (controller (m_particles s ! i)))))
   \<and> (\<not> m_is_attenuated s
        \<and> (\<forall>p\<in>set (m_particles (schedule rnd dt s)). 0 < lifetime (controller p))
      \<longrightarrow> (\<exists>s'. update rnd dt s = Inr s'))"
proof (intro conjI impI allI)
  assume u: "update rnd dt s = Inr s'"
  note eq = update_lifetimes(1) [OF u] and live = update_lifetimes(2) [OF u]
  from schedule_fresh [of rnd dt s] obtain fresh
    where f: "m_particles (schedule rnd dt s) = m_particles s @ fresh" by auto
  from eq have len: "length (m_particles s') = length (m_particles (schedule rnd dt s))"
    by (rule map_eq_imp_length_eq)
  then show "length (m_particles s') = length (m_particles (schedule rnd dt s))" .
  from len f show "length (m_particles s) \<le> length (m_particles s')" by simp
  fix i
  assume i: "i < length (m_particles s)"
  with len f have i': "i < length (m_particles s')" by simp
  from i f have same: "m_particles (schedule rnd dt s) ! i = m_particles s ! i"
    by (simp add: nth_append)
  from i f live show pos: "0 < lifetime (controller (m_particles s ! i))" by simp
  from i' have "lifetime (controller (m_particles s' ! i))
      = map (\<lambda>p. lifetime (controller p)) (m_particles s') ! i"
    by simp
  also have "\<dots> = map (\<lambda>p. lifetime (controller p) - dt) (m_particles (schedule rnd dt s)) ! i"
    by (simp only: eq)
  also from i' len have "\<dots> = lifetime (controller (m_particles (schedule rnd dt s) ! i)) - dt"
    by simp
  also have "\<dots> = lifetime (controller (m_particles s ! i)) - dt"
    by (simp only: same)
  finally
  show d: "lifetime (controller (m_particles s' ! i)) = lifetime (controller (m_particles s ! i)) - dt" .
  assume "0 < dt"
  with d show "lifetime (controller (m_particles s' ! i)) < lifetime (controller (m_particles s ! i))"
    by simp
next
  assume "\<not> m_is_attenuated s
      \<and> (\<forall>p\<in>set (m_particles (schedule rnd dt s)). 0 < lifetime (controller p))"
  then show "\<exists>s'. update rnd dt s = Inr s'" using update_total by blast
qed

theorem crossing_particle_stays_witness:
  "update rnd_zero 2 (ParticleSystem_new\<lparr>m_particles := [particle_with 1]\<rparr>)
     = Inr (ParticleSystem_new\<lparr>m_particles := [particle_with (- 1)]\<rparr>)
   \<and> length (m_particles (ParticleSystem_new\<lparr>m_particles := [particle_with (- 1)]\<rparr>)) = 1
   \<and> (0::nat) < length (m_particles (ParticleSystem_new\<lparr>m_particles := [particle_with 1]\<rparr>))
   \<and> lifetime (controller (m_particles (ParticleSystem_new\<lparr>m_particles := [particle_with (- 1)]\<rparr>) ! 0))
       = lifetime (controller (m_particles (ParticleSystem_new\<lparr>m_particles := [particle_with 1]\<rparr>) ! 0)) - 2
   \<and> lifetime (controller (m_particles (ParticleSystem_new\<lparr>m_particles := [particle_with (- 1)]\<rparr>) ! 0)) \<le> 0
   \<and> \<not> m_is_attenuated (ParticleSystem_new\<lparr>m_particles := [particle_with 1]\<rparr>)"
proof -
  have a: "\<not> m_is_attenuated (ParticleSystem_new\<lparr>m_particles := [particle_with 1]\<rparr>)"
    by (simp add: ParticleSystem_new_def)
  from crossing_particle_stays [where rnd = rnd_zero and dt = 2
      and s = "ParticleSystem_new\<lparr>m_particles := [particle_with 1]\<rparr>"
      and s' = "ParticleSystem_new\<lparr>m_particles := [particle_with (- 1)]\<rparr>"] crossing_step
  have "lifetime (controller (m_particles (ParticleSystem_new\<lparr>m_particles := [particle_with (- 1)]\<rparr>) ! 0))
       = lifetime (controller (m_particles (ParticleSystem_new\<lparr>m_particles := [particle_with 1]\<rparr>) ! 0)) - 2"
    by simp
  with crossing_step a show ?thesis by (simp add: particle_with_def)
qed

text \<open>
  C3 (as stated) fails: with rate 1, no particle yet and lifetime bound 0, \<open>update(2)\<close>
  spawns one particle of lifetime 1 and ages it to \<open>- 1\<close>; the particle is still in the
  collection after the call in which its lifetime crossed 0.
\<close>

theorem crossed_particle_kept:
  "update rnd_zero 2 (setEmitted True (setRespawnRate 1 ParticleSystem_new))
     = Inr ((setEmitted True (setRespawnRate 1 ParticleSystem_new))
              \<lparr>m_particles := [particle_with (- 1)], m_timer := 1, rand_calls := 5\<rparr>)"
  by (simp add: update_def schedule_def drain_idle drain_spawn
      setEmitted_def setRespawnRate_def ParticleSystem_new_def createParticle_def Let_def
      visit_def frand_def rand2f_def rnd_zero_def particle_with_def asRadians_def
      Sprite_move_def Sprite_scale_def Sprite_new_def Sprite_setPosition_def
      Sprite_setRotation_def Vector2f_times_def Vector2f_add_def)

section \<open>Movement, fading and growth\<close>

text \<open>
  C5 (failing input). With attenuation on, \<open>lifetimeMax = 1/2\<close>, rate 1 and emission on,
  \<open>update(2)\<close> spawns a particle of lifetime 1. Its ratio is 2 and the value converted to a
  byte is 510: no clamp is applied and the conversion has no defined result, where the
  claim gives the alpha \<open>clamp(2, 0, 1) * 255 = 255\<close>.
\<close>

theorem alpha_not_clamped:
  "update rnd_zero 2 (setAttenuated True (setLifeTime (1/2) (setEmitted True (setRespawnRate 1 ParticleSystem_new))))
     = Inl UndefinedCast"
  by (simp add: update_def schedule_def drain_idle drain_spawn setAttenuated_def setLifeTime_def
      setEmitted_def setRespawnRate_def ParticleSystem_new_def createParticle_def Let_def
      visit_def frand_def rnd_zero_def alpha_cast_def to_Uint8_def)

section \<open>Burst mode\<close>

text \<open>
  C4. On an empty collection, \<open>setExplosion(N, r)\<close> with \<open>N > 0\<close> leaves exactly \<open>N\<close>
  particles; the \<open>i\<close>-th is at \<open>emitter + r * (cos (i * 2 * pi / N), sin (i * 2 * pi / N))\<close>,
  its velocity is \<open>(cos (i * 2 * pi / N), sin (i * 2 * pi / N)) * velocity\<close>, of magnitude
  \<open>|velocity|\<close>, and continuous emission is off afterwards.
\<close>

theorem setExplosion_ring:
  assumes "m_particles s = []" and "0 < N"
  shows "length (m_particles (setExplosion rnd N r s)) = N
     \<and> (\<forall>i<N. sprite_position (sprite (m_particles (setExplosion rnd N r s) ! i))
                 = (fst (m_emitter s) + r * cos (real i * 2 * pi / real N),
                    snd (m_emitter s) + r * sin (real i * 2 * pi / real N))
             \<and> velocity (controller (m_particles (setExplosion rnd N r s) ! i))
                 = (cos (real i * 2 * pi / real N) * m_velocity s,
                    sin (real i * 2 * pi / real N) * m_velocity s)
             \<and> sqrt ((fst (velocity (controller (m_particles (setExplosion rnd N r s) ! i))))\<^sup>2
                     + (snd (velocity (controller (m_particles (setExplosion rnd N r s) ! i))))\<^sup>2)
                 = \<bar>m_velocity s\<bar>)
     \<and> \<not> m_is_emitted (setExplosion rnd N r s)"
proof -
  let ?ps = "m_particles (setExplosion rnd N r s)"
  have len: "length ?ps = N" and off: "\<not> m_is_emitted (setExplosion rnd N r s)"
    using assms(1) by (simp_all add: setExplosion_empty)
  have each: "sprite_position (sprite (?ps ! i))
                 = (fst (m_emitter s) + r * cos (real i * 2 * pi / real N),
                    snd (m_emitter s) + r * sin (real i * 2 * pi / real N))
             \<and> velocity (controller (?ps ! i))
                 = (cos (real i * 2 * pi / real N) * m_velocity s,
                    sin (real i * 2 * pi / real N) * m_velocity s)
             \<and> sqrt ((fst (velocity (controller (?ps ! i))))\<^sup>2
                     + (snd (velocity (controller (?ps ! i))))\<^sup>2)
                 = \<bar>m_velocity s\<bar>" if "i < N" for i
  proof -
    let ?a = "real i * 2 * pi / real N"
    have a: "real i * (pi * 2 / real N) = ?a" by simp
    have p: "?ps ! i = burst_particle s (pi * 2 / real N) r i (rnd (rand_calls s + i))"
      using that assms(1) by (simp add: setExplosion_empty)
    have pos: "sprite_position (sprite (?ps ! i))
        = (fst (m_emitter s) + r * cos ?a, snd (m_emitter s) + r * sin ?a)"
      unfolding p burst_particle_def Let_def a by (simp add: Sprite_setPosition_def)
    have vel: "velocity (controller (?ps ! i)) = (cos ?a * m_velocity s, sin ?a * m_velocity s)"
      unfolding p burst_particle_def Let_def a by simp
    have "(cos ?a * m_velocity s)\<^sup>2 + (sin ?a * m_velocity s)\<^sup>2
        = ((cos ?a)\<^sup>2 + (sin ?a)\<^sup>2) * (m_velocity s)\<^sup>2"
      by (simp only: power_mult_distrib distrib_right)
    also have "\<dots> = (m_velocity s)\<^sup>2" by simp
    finally have "sqrt ((cos ?a * m_velocity s)\<^sup>2 + (sin ?a * m_velocity s)\<^sup>2) = \<bar>m_velocity s\<bar>"
      by simp
    with pos vel show ?thesis by simp
  qed
  from len off each show ?thesis by blast
qed

theorem setExplosion_ring_witness:
  "m_particles (setVelocity 3 (setEmitter (10, 20) ParticleSystem_new)) = []
   \<and> (0::nat) < 2
   \<and> length (m_particles (setExplosion rnd_zero 2 5 (setVelocity 3 (setEmitter (10, 20) ParticleSystem_new)))) = 2
   \<and> sprite_position (sprite (m_particles
         (setExplosion rnd_zero 2 5 (setVelocity 3 (setEmitter (10, 20) ParticleSystem_new))) ! 1)) = (5, 20)
   \<and> velocity (controller (m_particles
         (setExplosion rnd_zero 2 5 (setVelocity 3 (setEmitter (10, 20) ParticleSystem_new))) ! 1)) = (- 3, 0)
   \<and> \<not> m_is_emitted (setExplosion rnd_zero 2 5 (setVelocity 3 (setEmitter (10, 20) ParticleSystem_new)))"
proof -
  have e: "m_particles (setVelocity 3 (setEmitter (10, 20) ParticleSystem_new)) = []"
    by (simp add: setVelocity_def setEmitter_def ParticleSystem_new_def)
  have n: "(0::nat) < 2" by simp
  from setExplosion_ring [OF e n, of rnd_zero 5] e show ?thesis
    by (simp add: setVelocity_def setEmitter_def ParticleSystem_new_def)
qed

text \<open>
  C6. On a non-empty collection \<open>setExplosion\<close> returns the engine state unchanged, for
  every amount and radius.
\<close>

theorem setExplosion_nonempty_noop:
  "m_particles s \<noteq> [] \<Longrightarrow> setExplosion rnd N r s = s"
  by (simp add: setExplosion_def)

theorem setExplosion_nonempty_noop_witness:
  "m_particles (ParticleSystem_new\<lparr>m_particles := [particle_with 1], m_is_emitted := True, m_timer := 1/2\<rparr>) \<noteq> []
   \<and> setExplosion rnd_zero 8 5 (ParticleSystem_new\<lparr>m_particles := [particle_with 1], m_is_emitted := True, m_timer := 1/2\<rparr>)
       = ParticleSystem_new\<lparr>m_particles := [particle_with 1], m_is_emitted := True, m_timer := 1/2\<rparr>"
  using setExplosion_nonempty_noop [of "ParticleSystem_new\<lparr>m_particles := [particle_with 1], m_is_emitted := True, m_timer := 1/2\<rparr>" rnd_zero 8 5]
  by simp

text \<open>
  C7 (as the code has it). \<open>setExplosion\<close> has no guard for the amount 0. With amount 0 it
  spawns no particle and reports no error; it changes nothing but the emission flag, which
  it turns off when the collection is empty.
\<close>

theorem setExplosion_zero:
  "setExplosion rnd 0 r s = s\<lparr>m_is_emitted := m_is_emitted s \<and> m_particles s \<noteq> []\<rparr>"
  by (simp add: setExplosion_def setEmitted_def)

text \<open>
  C7 (as stated) fails: on an engine with emission on and no particle,
  \<open>setExplosion(0, 1)\<close> turns emission off, so the call is not a no-op.
\<close>

theorem setExplosion_zero_changes_emitted:
  "setExplosion rnd_zero 0 1 (setEmitted True ParticleSystem_new) = ParticleSystem_new
   \<and> setEmitted True ParticleSystem_new \<noteq> ParticleSystem_new"
  by (simp add: setExplosion_def setEmitted_def ParticleSystem_new_def)

section \<open>Initial lifetime\<close>

text \<open>
  C8. With \<open>lifetimeMax \<ge> 0\<close> and samples in \<open>[0, 1]\<close>, the particle that
  \<open>createParticle\<close> appends and every particle of a burst has the initial lifetime
  \<open>uniform(0, lifetimeMax) + 1\<close>, which lies in \<open>[1, lifetimeMax + 1]\<close> and is exactly 1 when
  \<open>lifetimeMax = 0\<close>.
\<close>

theorem spawn_lifetime_range:
  assumes "0 \<le> m_lifetime_max s" and "\<forall>k. 0 \<le> rnd k \<and> rnd k \<le> 1"
  shows "(\<exists>p. m_particles (createParticle rnd s) = m_particles s @ [p]
            \<and> lifetime (controller p) = frand 0 (m_lifetime_max s) (rnd (rand_calls s + 1)) + 1
            \<and> 1 \<le> lifetime (controller p) \<and> lifetime (controller p) \<le> m_lifetime_max s + 1
            \<and> (m_lifetime_max s = 0 \<longrightarrow> lifetime (controller p) = 1))
     \<and> (m_particles s = [] \<longrightarrow>
          (\<forall>i<N. lifetime (controller (m_particles (setExplosion rnd N r s) ! i))
                    = frand 0 (m_lifetime_max s) (rnd (rand_calls s + i)) + 1
                \<and> 1 \<le> lifetime (controller (m_particles (setExplosion rnd N r s) ! i))
                \<and> lifetime (controller (m_particles (setExplosion rnd N r s) ! i)) \<le> m_lifetime_max s + 1
                \<and> (m_lifetime_max s = 0 \<longrightarrow>
                     lifetime (controller (m_particles (setExplosion rnd N r s) ! i)) = 1)))"
proof -
  have r: "0 \<le> frand 0 (m_lifetime_max s) (rnd k)" "frand 0 (m_lifetime_max s) (rnd k) \<le> m_lifetime_max s" for k
    using frand_range [of "rnd k" "m_lifetime_max s"] assms by simp_all
  have z: "m_lifetime_max s = 0 \<Longrightarrow> frand 0 (m_lifetime_max s) u = 0" for u
    by (simp add: frand_def)
  have "\<exists>p. m_particles (createParticle rnd s) = m_particles s @ [p]
            \<and> lifetime (controller p) = frand 0 (m_lifetime_max s) (rnd (rand_calls s + 1)) + 1
            \<and> 1 \<le> lifetime (controller p) \<and> lifetime (controller p) \<le> m_lifetime_max s + 1
            \<and> (m_lifetime_max s = 0 \<longrightarrow> lifetime (controller p) = 1)"
    using r [of "rand_calls s + 1"] z by (simp add: createParticle_def Let_def)
  moreover have "\<forall>i<N. lifetime (controller (m_particles (setExplosion rnd N r s) ! i))
                    = frand 0 (m_lifetime_max s) (rnd (rand_calls s + i)) + 1
                \<and> 1 \<le> lifetime (controller (m_particles (setExplosion rnd N r s) ! i))
                \<and> lifetime (controller (m_particles (setExplosion rnd N r s) ! i)) \<le> m_lifetime_max s + 1
                \<and> (m_lifetime_max s = 0 \<longrightarrow>
                     lifetime (controller (m_particles (setExplosion rnd N r s) ! i)) = 1)"
    if "m_particles s = []"
    using that r z by (simp add: setExplosion_empty burst_particle_def Let_def)
  ultimately show ?thesis by blast
qed

theorem spawn_lifetime_range_witness:
  "0 \<le> m_lifetime_max (setLifeTime 3 ParticleSystem_new)
   \<and> 0 \<le> rnd_one 0 \<and> rnd_one 0 \<le> 1
   \<and> m_particles (setLifeTime 3 ParticleSystem_new) = []
   \<and> lifetime (controller (last (m_particles (createParticle rnd_one (setLifeTime 3 ParticleSystem_new))))) = 4
   \<and> lifetime (controller (m_particles (setExplosion rnd_one 2 5 (setLifeTime 3 ParticleSystem_new)) ! 1))
       \<le> m_lifetime_max (setLifeTime 3 ParticleSystem_new) + 1
   \<and> lifetime (controller (last (m_particles (createParticle rnd_one ParticleSystem_new)))) = 1"
proof -
  have h: "0 \<le> m_lifetime_max (setLifeTime 3 ParticleSystem_new)"
    by (simp add: setLifeTime_def ParticleSystem_new_def)
  have u: "\<forall>k. 0 \<le> rnd_one k \<and> rnd_one k \<le> 1" by (simp add: rnd_one_def)
  have z: "0 \<le> m_lifetime_max ParticleSystem_new" by (simp add: ParticleSystem_new_def)
  have e: "m_particles (setLifeTime 3 ParticleSystem_new) = []"
    by (simp add: setLifeTime_def ParticleSystem_new_def)
  from spawn_lifetime_range [OF h u, of 2 5] e
  have b: "lifetime (controller (m_particles (setExplosion rnd_one 2 5 (setLifeTime 3 ParticleSystem_new)) ! 1))
       \<le> m_lifetime_max (setLifeTime 3 ParticleSystem_new) + 1"
    by (auto dest!: spec [of _ "1::nat"])
  from spawn_lifetime_range [OF h u, of 2 5] obtain p
    where "m_particles (createParticle rnd_one (setLifeTime 3 ParticleSystem_new))
             = m_particles (setLifeTime 3 ParticleSystem_new) @ [p]"
      and "lifetime (controller p) = frand 0 (m_lifetime_max (setLifeTime 3 ParticleSystem_new))
             (rnd_one (rand_calls (setLifeTime 3 ParticleSystem_new) + 1)) + 1"
    by blast
  then have c: "lifetime (controller (last (m_particles
      (createParticle rnd_one (setLifeTime 3 ParticleSystem_new))))) = 4"
    by (simp add: frand_def rnd_one_def setLifeTime_def ParticleSystem_new_def)
  from spawn_lifetime_range [OF z u, of 0 0] obtain q
    where "m_particles (createParticle rnd_one ParticleSystem_new) = m_particles ParticleSystem_new @ [q]"
      and "lifetime (controller q) = 1"
    by (auto simp: ParticleSystem_new_def)
  then have d: "lifetime (controller (last (m_particles (createParticle rnd_one ParticleSystem_new)))) = 1"
    by simp
  note c d
  with b h e show ?thesis by (simp add: rnd_one_def)
qed

section \<open>The accumulator\<close>



text \<open>
  C10. The accumulator is 0 in the constructed engine, it is at most 1 after every
  \<open>update\<close> that returns, and hence at most 1 in every reachable state; so in a reachable
  state with emission off the loop at the top of \<open>update\<close> spawns no particle.
\<close>

theorem timer_le_one:
  "m_timer ParticleSystem_new = 0
   \<and> (update rnd dt s = Inr s' \<longrightarrow> m_timer s' \<le> 1)
   \<and> (reachable rnd s \<longrightarrow>
        m_timer s \<le> 1
        \<and> (\<not> m_is_emitted s \<longrightarrow>
             m_particles (schedule rnd dt s) = m_particles s \<and> spawned rnd dt s = 0))"
proof (intro conjI impI)
  show "m_timer ParticleSystem_new = 0" by (simp add: ParticleSystem_new_def)
next
  assume "update rnd dt s = Inr s'"
  from update_fields [OF this] schedule_timer_le [of rnd dt s] show "m_timer s' \<le> 1" by simp
next
  assume "reachable rnd s"
  then show "m_timer s \<le> 1" by (rule reachable_timer)
next
  assume "reachable rnd s" and "\<not> m_is_emitted s"
  then have "schedule rnd dt s = s" by (simp add: schedule_idle reachable_timer)
  then show "m_particles (schedule rnd dt s) = m_particles s" and "spawned rnd dt s = 0"
    by (simp_all add: spawned_def)
qed

theorem timer_le_one_witness:
  "update rnd_zero 3 (setEmitted True (setRespawnRate 1 ParticleSystem_new))
     = Inr ((setEmitted True (setRespawnRate 1 ParticleSystem_new))
              \<lparr>m_particles := [particle_with (- 2), particle_with (- 2)], m_timer := 1, rand_calls := 10\<rparr>)
   \<and> m_timer ((setEmitted True (setRespawnRate 1 ParticleSystem_new))
              \<lparr>m_particles := [particle_with (- 2), particle_with (- 2)], m_timer := 1, rand_calls := 10\<rparr>) \<le> 1
   \<and> reachable rnd_zero ((setEmitted True (setRespawnRate 2 ParticleSystem_new))\<lparr>m_timer := 1/2\<rparr>)
   \<and> m_timer ((setEmitted True (setRespawnRate 2 ParticleSystem_new))\<lparr>m_timer := 1/2\<rparr>) \<le> 1
   \<and> reachable rnd_zero (setRespawnRate 2 ParticleSystem_new)
   \<and> \<not> m_is_emitted (setRespawnRate 2 ParticleSystem_new)
   \<and> spawned rnd_zero 3 (setRespawnRate 2 ParticleSystem_new) = 0"
proof -
  have r: "reachable rnd_zero (setRespawnRate 2 ParticleSystem_new)"
    by (rule reachable.rate [OF reachable.constructed])
  have e: "\<not> m_is_emitted (setRespawnRate 2 ParticleSystem_new)"
    by (simp add: setRespawnRate_def ParticleSystem_new_def)
  from timer_le_one [where rnd = rnd_zero and dt = 3
      and s = "setEmitted True (setRespawnRate 1 ParticleSystem_new)"] long_step
  have a: "m_timer ((setEmitted True (setRespawnRate 1 ParticleSystem_new))
      \<lparr>m_particles := [particle_with (- 2), particle_with (- 2)], m_timer := 1, rand_calls := 10\<rparr>) \<le> 1"
    by blast
  from timer_le_one [where rnd = rnd_zero
      and s = "(setEmitted True (setRespawnRate 2 ParticleSystem_new))\<lparr>m_timer := 1/2\<rparr>"]
    half_timer_reachable
  have b: "m_timer ((setEmitted True (setRespawnRate 2 ParticleSystem_new))\<lparr>m_timer := 1/2\<rparr>) \<le> 1"
    by blast
  from timer_le_one [where rnd = rnd_zero and dt = 3 and s = "setRespawnRate 2 ParticleSystem_new"] r e
  have c: "spawned rnd_zero 3 (setRespawnRate 2 ParticleSystem_new) = 0"
    by blast
  from long_step a half_timer_reachable b r e c show ?thesis by blast
qed

end
